theory Spec2Isabelle
  imports Main
begin

section \<open>JavaScript values and strings\<close>

text \<open>
  A value that may be \<open>null\<close> or \<open>undefined\<close> is a \<open>string option\<close>. JavaScript's
  truthiness of such a value: \<open>null\<close>, \<open>undefined\<close> and the empty string are falsy,
  every other string is truthy.
\<close>

definition truthy :: "string option \<Rightarrow> bool" where
  "truthy v = (case v of None \<Rightarrow> False | Some s \<Rightarrow> s \<noteq> [])"

text \<open>\<open>a || b\<close>: the left operand when it is truthy, the right one otherwise.\<close>

definition js_or :: "string option \<Rightarrow> string option \<Rightarrow> string option" where
  "js_or a b = (if truthy a then a else b)"

text \<open>What string concatenation and template literals make of a value: \<open>undefined\<close>
  is printed as the word.\<close>

definition js_str :: "string option \<Rightarrow> string" where
  "js_str v = (case v of None \<Rightarrow> ''undefined'' | Some s \<Rightarrow> s)"

definition NL :: string where
  "NL = [CHR 0x0A]"

text \<open>\<open>String.prototype.includes\<close>: a case-sensitive search for a substring.\<close>

fun starts_with :: "string \<Rightarrow> string \<Rightarrow> bool" where
  "starts_with s [] = True"
| "starts_with [] (c # sub) = False"
| "starts_with (a # s) (c # sub) = (a = c \<and> starts_with s sub)"

fun js_includes :: "string \<Rightarrow> string \<Rightarrow> bool" where
  "js_includes [] sub = (sub = [])"
| "js_includes (a # s) sub = (starts_with (a # s) sub \<or> js_includes s sub)"

text \<open>
  \<open>String.prototype.trim\<close> removes white space and line terminators at both ends: tab,
  line feed, vertical tab, form feed, carriage return, space, the no-break space, the
  other space separators of Unicode, the line and paragraph separators and the byte
  order mark. A string is the list of the bytes of its UTF-8 encoding, so each of them
  is the byte sequence that encodes it.
\<close>

definition white_space :: "string list" where
  "white_space =
     [[CHR 0x09], [CHR 0x0A], [CHR 0x0B], [CHR 0x0C], [CHR 0x0D], [CHR 0x20],
      [CHR 0xC2, CHR 0xA0],
      [CHR 0xE1, CHR 0x9A, CHR 0x80],
      [CHR 0xE2, CHR 0x80, CHR 0x80], [CHR 0xE2, CHR 0x80, CHR 0x81],
      [CHR 0xE2, CHR 0x80, CHR 0x82], [CHR 0xE2, CHR 0x80, CHR 0x83],
      [CHR 0xE2, CHR 0x80, CHR 0x84], [CHR 0xE2, CHR 0x80, CHR 0x85],
      [CHR 0xE2, CHR 0x80, CHR 0x86], [CHR 0xE2, CHR 0x80, CHR 0x87],
      [CHR 0xE2, CHR 0x80, CHR 0x88], [CHR 0xE2, CHR 0x80, CHR 0x89],
      [CHR 0xE2, CHR 0x80, CHR 0x8A],
      [CHR 0xE2, CHR 0x80, CHR 0xA8], [CHR 0xE2, CHR 0x80, CHR 0xA9],
      [CHR 0xE2, CHR 0x80, CHR 0xAF],
      [CHR 0xE2, CHR 0x81, CHR 0x9F],
      [CHR 0xE3, CHR 0x80, CHR 0x80],
      [CHR 0xEF, CHR 0xBB, CHR 0xBF]]"

text \<open>
  \<open>strip_start\<close> removes, as long as there is one, an encoding the string starts with;
  the end of the string is stripped on the reversed string with the reversed encodings.
\<close>

function strip_start :: "string list \<Rightarrow> string \<Rightarrow> string" where
  "strip_start encodings s =
     (case find (\<lambda>ws. ws \<noteq> [] \<and> starts_with s ws) encodings of
        None \<Rightarrow> s
      | Some ws \<Rightarrow> strip_start encodings (drop (length ws) s))"
  by pat_completeness auto

termination
proof (relation "measure (\<lambda>(encodings, s). length s)")
  show "wf (measure (\<lambda>(encodings, s). length s))"
    by simp
next
  fix encodings :: "string list" and s ws :: string
  assume "find (\<lambda>ws. ws \<noteq> [] \<and> starts_with s ws) encodings = Some ws"
  then have "ws \<noteq> []" and "starts_with s ws"
    by (auto simp add: find_Some_iff)
  then show "((encodings, drop (length ws) s), (encodings, s)) \<in> measure (\<lambda>(encodings, s). length s)"
    by (cases s; cases ws) auto
qed

declare strip_start.simps [simp del]

definition trim :: "string \<Rightarrow> string" where
  "trim s = rev (strip_start (map rev white_space) (rev (strip_start white_space s)))"

text \<open>The decimal numeral a template literal prints for a non-negative integer.\<close>

definition digit :: "nat \<Rightarrow> char" where
  "digit d = ''0123456789'' ! d"

fun show_nat :: "nat \<Rightarrow> string" where
  "show_nat n = (if n < 10 then [digit n] else show_nat (n div 10) @ [digit (n mod 10)])"

declare show_nat.simps [simp del]

text \<open>
  An object with string keys that are not array indices keeps its properties in the
  order of their first assignment; a later assignment to a key that is present replaces
  the value where it stands. This is an association list with that update.
\<close>

type_synonym metadata = "(string \<times> string) list"

fun set_prop :: "string \<Rightarrow> string \<Rightarrow> metadata \<Rightarrow> metadata" where
  "set_prop k v [] = [(k, v)]"
| "set_prop k v (p # m) = (if fst p = k then (k, v) # m else p # set_prop k v m)"

section \<open>The collaborators\<close>

text \<open>
  The HTTP client (axios), the DOM parser (jsdom), the article extractor (Readability),
  the markdown engine (turndown) and the clock are libraries outside the repository.
  They are parameters of the model: what they return, or throw, is given by an
  environment.
\<close>

record response =
  status :: nat
  statusText :: string
  data :: string

text \<open>
  What a \<open>try\<close> block can catch: an axios error (with the response when one arrived,
  whether the request was sent, and its message), another \<open>Error\<close> with its message,
  or a value that is no \<open>Error\<close>.
\<close>

datatype thrown =
    AxiosError (response: "response option") (request: bool) (message: string)
  | JsError (message: string)
  | NonError

text \<open>What Readability's \<open>parse\<close> returns when it finds an article; each field may be null.\<close>

record parsed_article =
  parsed_title :: "string option"
  parsed_content :: "string option"
  parsed_byline :: "string option"

text \<open>What \<open>getAttribute\<close> gives for the three attributes read of a \<open>meta\<close> element.\<close>

record meta_tag =
  name_attr :: "string option"
  property_attr :: "string option"
  content_attr :: "string option"

text \<open>
  What the pipeline reads of a parsed document: the text content of the first
  \<open>title\<close> element (\<open>None\<close> when \<open>querySelector\<close> finds none) and the \<open>meta\<close>
  elements in document order.
\<close>

record document =
  title_text :: "string option"
  meta_tags :: "meta_tag list"

text \<open>
  A turndown rule as \<open>addRule\<close> takes it: the tag names its filter selects, and the
  replacement computed from the converted content of the selected element. A service
  holds its options, the tags kept as raw HTML and the added rules.
\<close>

record rule =
  filter_tags :: "string list"
  replacement :: "string \<Rightarrow> string"

record turndown_options =
  headingStyle :: string
  codeBlockStyle :: string
  bulletListMarker :: string
  emDelimiter :: string
  strongDelimiter :: string

record turndown_service =
  options :: turndown_options
  kept :: "string list"
  rules :: "(string \<times> rule) list"

text \<open>
  The state of the world is the list of the URLs for which \<open>axios.get\<close> was called so
  far, oldest first. The network and the clock may answer differently as it grows.
  The engine is turndown's \<open>turndown\<close> method: it is given the service and the HTML.
\<close>

type_synonym world = "string list"

record env =
  transport :: "world \<Rightarrow> string \<Rightarrow> int \<Rightarrow> thrown + response"
  readability :: "string \<Rightarrow> string \<Rightarrow> thrown + parsed_article option"
  jsdom :: "string \<Rightarrow> thrown + document"
  engine :: "turndown_service \<Rightarrow> string \<Rightarrow> thrown + string"
  clock :: "world \<Rightarrow> string"

section \<open>The markdown service the server configures\<close>

definition strikethrough :: rule where
  "strikethrough =
     \<lparr>filter_tags = [''del'', ''s'', ''strike''],
      replacement = (\<lambda>content. ''~~'' @ content @ ''~~'')\<rparr>"

definition turndownService :: turndown_service where
  "turndownService =
     \<lparr>options = \<lparr>headingStyle = ''atx'', codeBlockStyle = ''fenced'',
                 bulletListMarker = ''-'', emDelimiter = ''*'', strongDelimiter = ''**''\<rparr>,
      kept = [''iframe'', ''video'', ''audio''],
      rules = [(''strikethrough'', strikethrough)]\<rparr>"

definition turndown :: "env \<Rightarrow> string \<Rightarrow> thrown + string" where
  "turndown env html = engine env turndownService html"

section \<open>extractReadableContent\<close>

record article =
  article_title :: string
  article_content :: string
  article_byline :: "string option"

definition extractReadableContent :: "env \<Rightarrow> string \<Rightarrow> string \<Rightarrow> article option" where
  "extractReadableContent env html url =
     (case readability env html url of
        Inl error \<Rightarrow> None
      | Inr None \<Rightarrow> None
      | Inr (Some a) \<Rightarrow>
          (case (parsed_title a, parsed_content a) of
             (Some t, Some c) \<Rightarrow>
               if t \<noteq> [] \<and> c \<noteq> []
               then Some \<lparr>article_title = t, article_content = c,
                          article_byline = js_or (parsed_byline a) None\<rparr>
               else None
           | _ \<Rightarrow> None))"

section \<open>fetchSingleUrl\<close>

record fetch_result =
  success :: bool
  content :: "string option"
  error :: "string option"

text \<open>
  \<open>axios.get\<close> with \<open>validateStatus: (status) => status < 400\<close>: a response whose
  status fails the test is rejected with an axios error that carries the response.
\<close>

definition validateStatus :: "nat \<Rightarrow> bool" where
  "validateStatus st = (st < 400)"

definition axios_get :: "env \<Rightarrow> world \<Rightarrow> string \<Rightarrow> int \<Rightarrow> thrown + response" where
  "axios_get env w url timeout =
     (case transport env w url timeout of
        Inl e \<Rightarrow> Inl e
      | Inr r \<Rightarrow>
          if validateStatus (status r) then Inr r
          else Inl (AxiosError (Some r) True
                      (''Request failed with status code '' @ show_nat (status r))))"

text \<open>The branch on \<open>simplify\<close>: the markdown body and the metadata seeded from the article.\<close>

definition convert_body ::
  "env \<Rightarrow> string \<Rightarrow> bool \<Rightarrow> bool \<Rightarrow> string \<Rightarrow> thrown + (string \<times> metadata)" where
  "convert_body env url includeMetadata simplify html =
     (if simplify then
        (case extractReadableContent env html url of
           Some a \<Rightarrow>
             (case turndown env (article_content a) of
                Inl e \<Rightarrow> Inl e
              | Inr markdownContent \<Rightarrow>
                  Inr (markdownContent,
                       if includeMetadata then
                         (let metadata = set_prop ''title'' (article_title a) []
                          in if truthy (article_byline a)
                             then set_prop ''author'' (js_str (article_byline a)) metadata
                             else metadata)
                       else []))
         | None \<Rightarrow>
             (case turndown env html of
                Inl e \<Rightarrow> Inl e
              | Inr markdownContent \<Rightarrow> Inr (markdownContent, [])))
      else
        (case turndown env html of
           Inl e \<Rightarrow> Inl e
         | Inr markdownContent \<Rightarrow> Inr (markdownContent, [])))"

text \<open>The body of the \<open>forEach\<close> over the \<open>meta\<close> elements.\<close>

definition meta_step :: "metadata \<Rightarrow> meta_tag \<Rightarrow> metadata" where
  "meta_step metadata tag =
     (case (js_or (name_attr tag) (property_attr tag), content_attr tag) of
        (Some name, Some c) \<Rightarrow>
          if name \<noteq> [] \<and> c \<noteq> [] then
            (if js_includes name ''description'' then set_prop ''description'' c metadata
             else if js_includes name ''author'' then set_prop ''author'' c metadata
             else if js_includes name ''keywords'' then set_prop ''keywords'' c metadata
             else if js_includes name ''og:'' then set_prop name c metadata
             else metadata)
          else metadata
      | _ \<Rightarrow> metadata)"

text \<open>The title taken from the document when the metadata has no truthy title yet.\<close>

definition title_fallback :: "document \<Rightarrow> metadata \<Rightarrow> metadata" where
  "title_fallback doc metadata =
     (if \<not> truthy (map_of metadata ''title'') then
        (case title_text doc of
           Some t \<Rightarrow> set_prop ''title'' (trim t) metadata
         | None \<Rightarrow> metadata)
      else metadata)"

text \<open>The block under \<open>if (includeMetadata)\<close>; the clock is read after the request.\<close>

definition harvest ::
  "env \<Rightarrow> world \<Rightarrow> string \<Rightarrow> string \<Rightarrow> metadata \<Rightarrow> thrown + metadata" where
  "harvest env w url html metadata =
     (case jsdom env html of
        Inl e \<Rightarrow> Inl e
      | Inr doc \<Rightarrow>
          Inr (set_prop ''fetchedAt'' (clock env w)
                (set_prop ''url'' url
                  (foldl meta_step (title_fallback doc metadata) (meta_tags doc)))))"

definition front_matter_line :: "string \<times> string \<Rightarrow> string" where
  "front_matter_line e = fst e @ '': '' @ snd e @ NL"

definition assemble :: "bool \<Rightarrow> metadata \<Rightarrow> string \<Rightarrow> string" where
  "assemble includeMetadata metadata markdownContent =
     (if includeMetadata \<and> length metadata > 0
      then foldl (\<lambda>finalContent e. finalContent @ front_matter_line e)
             (''---'' @ NL) metadata @ ''---'' @ NL @ NL
      else []) @ markdownContent"

definition try_block ::
  "env \<Rightarrow> world \<Rightarrow> string \<Rightarrow> bool \<Rightarrow> bool \<Rightarrow> int \<Rightarrow> thrown + string" where
  "try_block env w url includeMetadata simplify timeout =
     (case axios_get env w url timeout of
        Inl e \<Rightarrow> Inl e
      | Inr r \<Rightarrow>
          (case convert_body env url includeMetadata simplify (data r) of
             Inl e \<Rightarrow> Inl e
           | Inr (markdownContent, seeded) \<Rightarrow>
               (case (if includeMetadata then harvest env (w @ [url]) url (data r) seeded
                      else Inr seeded) of
                  Inl e \<Rightarrow> Inl e
                | Inr metadata \<Rightarrow> Inr (assemble includeMetadata metadata markdownContent))))"

definition catch_block :: "thrown \<Rightarrow> string" where
  "catch_block e =
     (case e of
        AxiosError resp req msg \<Rightarrow>
          (case resp of
             Some r \<Rightarrow> ''HTTP '' @ show_nat (status r) @ '': '' @ statusText r
           | None \<Rightarrow> if req then ''No response received from server'' else msg)
      | JsError msg \<Rightarrow> msg
      | NonError \<Rightarrow> ''Failed to fetch URL'')"

definition fetchSingleUrl ::
  "env \<Rightarrow> world \<Rightarrow> string \<Rightarrow> bool \<Rightarrow> bool \<Rightarrow> int \<Rightarrow> fetch_result \<times> world" where
  "fetchSingleUrl env w url includeMetadata simplify timeout =
     ((case try_block env w url includeMetadata simplify timeout of
         Inr finalContent \<Rightarrow> \<lparr>success = True, content = Some finalContent, error = None\<rparr>
       | Inl e \<Rightarrow> \<lparr>success = False, content = None, error = Some (catch_block e)\<rparr>),
      w @ [url])"

section \<open>The tools\<close>

text \<open>A tool's answer: the text of its single content item, and the error flag.\<close>

record tool_result =
  text_item :: string
  isError :: bool

definition fetch_url ::
  "env \<Rightarrow> world \<Rightarrow> string \<Rightarrow> bool \<Rightarrow> bool \<Rightarrow> int \<Rightarrow> tool_result \<times> world" where
  "fetch_url env w url includeMetadata simplify timeout =
     (let (result, w') = fetchSingleUrl env w url includeMetadata simplify timeout
      in (if success result \<and> truthy (content result)
          then \<lparr>text_item = js_str (content result), isError = False\<rparr>
          else \<lparr>text_item = ''Error fetching '' @ url @ '': '' @
                             js_str (js_or (error result) (Some ''Unknown error'')),
                isError = True\<rparr>,
          w'))"

record batch_result = fetch_result +
  url :: string

text \<open>The object pushed onto \<open>results\<close> for a URL and the result of its fetch.\<close>

definition batch_entry :: "string \<Rightarrow> fetch_result \<Rightarrow> batch_result" where
  "batch_entry u result =
     (if success result
      then \<lparr>success = True, content = content result, error = None, url = u\<rparr>
      else \<lparr>success = False, content = None, error = error result, url = u\<rparr>)"

text \<open>The first loop of \<open>fetch_urls\<close>: one fetch per URL, in the order of the list.\<close>

fun fetch_loop ::
  "env \<Rightarrow> bool \<Rightarrow> bool \<Rightarrow> int \<Rightarrow> string list \<Rightarrow> batch_result list \<Rightarrow> world
     \<Rightarrow> batch_result list \<times> world" where
  "fetch_loop env includeMetadata simplify timeout [] results w = (results, w)"
| "fetch_loop env includeMetadata simplify timeout (u # urls) results w =
     (let (result, w') = fetchSingleUrl env w u includeMetadata simplify timeout
      in fetch_loop env includeMetadata simplify timeout urls
           (results @ [batch_entry u result]) w')"

text \<open>The second loop: what one result adds to \<open>output\<close>.\<close>

definition render_result :: "batch_result \<Rightarrow> string" where
  "render_result result =
     ''## '' @ url result @ NL @ NL @
     (if success result then js_str (content result) @ NL @ NL
      else ''**Error:** '' @ js_str (error result) @ NL @ NL) @
     ''---'' @ NL @ NL"

definition render_report :: "batch_result list \<Rightarrow> string" where
  "render_report results =
     foldl (\<lambda>output result. output @ render_result result)
       (''# Batch Fetch Results'' @ NL @ NL) results"

definition fetch_urls ::
  "env \<Rightarrow> world \<Rightarrow> string list \<Rightarrow> bool \<Rightarrow> bool \<Rightarrow> int \<Rightarrow> tool_result \<times> world" where
  "fetch_urls env w urls includeMetadata simplify timeout =
     (let (results, w') = fetch_loop env includeMetadata simplify timeout urls [] w
      in (\<lparr>text_item = render_report results, isError = False\<rparr>, w'))"

section \<open>The classification of meta elements as the specification words it\<close>

text \<open>
  The key candidate of a \<open>meta\<close> element is its \<open>name\<close> attribute, or its
  \<open>property\<close> attribute when the name is absent; an empty attribute counts as absent,
  as it does for JavaScript's \<open>||\<close> and \<open>&&\<close>.
\<close>

definition present :: "string option \<Rightarrow> string option" where
  "present v = (case v of None \<Rightarrow> None | Some s \<Rightarrow> if s = [] then None else Some s)"

definition key_candidate :: "meta_tag \<Rightarrow> string option" where
  "key_candidate tag =
     (case present (name_attr tag) of Some n \<Rightarrow> Some n | None \<Rightarrow> present (property_attr tag))"

text \<open>
  The ordered rules: the substring looked for in the key candidate, and the key the
  content is stored under.
\<close>

definition classification :: "(string \<times> (string \<Rightarrow> string)) list" where
  "classification =
     [(''description'', \<lambda>key. ''description''),
      (''author'', \<lambda>key. ''author''),
      (''keywords'', \<lambda>key. ''keywords''),
      (''og:'', \<lambda>key. key)]"

definition destination :: "string \<Rightarrow> string option" where
  "destination key =
     (case find (\<lambda>(pattern, dest). js_includes key pattern) classification of
        None \<Rightarrow> None
      | Some (pattern, dest) \<Rightarrow> Some (dest key))"

text \<open>The entry a \<open>meta\<close> element contributes, if any: its destination key and its content.\<close>

definition contribution :: "meta_tag \<Rightarrow> (string \<times> string) option" where
  "contribution tag =
     (case (key_candidate tag, present (content_attr tag)) of
        (Some key, Some c) \<Rightarrow>
          (case destination key of None \<Rightarrow> None | Some d \<Rightarrow> Some (d, c))
      | _ \<Rightarrow> None)"

section \<open>An example world\<close>

text \<open>
  A small site to run the pipeline on. One URL answers 404. The others answer 200: a
  page of one paragraph, a page with an empty body, a page whose title is a single
  space, and a page with a title and \<open>meta\<close> elements. Readability finds no article in
  any of them.
\<close>

definition url_missing :: string where
  "url_missing = ''https://example.com/missing''"

definition url_hello :: string where
  "url_hello = ''https://example.com/hello''"

definition url_blank :: string where
  "url_blank = ''https://example.com/blank''"

definition url_untitled :: string where
  "url_untitled = ''https://example.com/untitled''"

definition url_a :: string where
  "url_a = ''https://example.com/a''"

definition page_hello :: string where
  "page_hello = ''<p>Hello</p>''"

definition page_blank :: string where
  "page_blank = ''<html><head></head><body></body></html>''"

definition page_untitled :: string where
  "page_untitled = ''<html><head><title> </title></head><body><p>Hello</p></body></html>''"

definition page_a :: string where
  "page_a = ''<html><head><title>Hello</title><meta name=author content=Jane></head><body></body></html>''"

definition example_transport :: "world \<Rightarrow> string \<Rightarrow> int \<Rightarrow> thrown + response" where
  "example_transport w u timeout =
     (if u = url_missing then Inr \<lparr>status = 404, statusText = ''Not Found'', data = []\<rparr>
      else Inr \<lparr>status = 200, statusText = ''OK'',
                data = (if u = url_hello then page_hello
                        else if u = url_untitled then page_untitled
                        else if u = url_a then page_a
                        else page_blank)\<rparr>)"

definition example_jsdom :: "string \<Rightarrow> thrown + document" where
  "example_jsdom html =
     (if html = page_untitled then Inr \<lparr>title_text = Some '' '', meta_tags = []\<rparr>
      else if html = page_a then
        Inr \<lparr>title_text = Some ''Hello'',
             meta_tags = [\<lparr>name_attr = Some ''author'', property_attr = None,
                           content_attr = Some ''Jane''\<rparr>]\<rparr>
      else Inr \<lparr>title_text = None, meta_tags = []\<rparr>)"

definition example_engine :: "turndown_service \<Rightarrow> string \<Rightarrow> thrown + string" where
  "example_engine service html =
     (if html = page_hello \<or> html = page_untitled \<or> html = page_a then Inr ''Hello''
      else Inr [])"

definition example_env :: env where
  "example_env =
     \<lparr>transport = example_transport,
      readability = (\<lambda>html u. Inr None),
      jsdom = example_jsdom,
      engine = example_engine,
      clock = (\<lambda>w. ''2024-01-01T00:00:00.000Z'')\<rparr>"

text \<open>
  Four \<open>meta\<close> elements: two Open Graph titles, an Open Graph description between
  them, and a viewport declaration.
\<close>

definition og_first :: meta_tag where
  "og_first = \<lparr>name_attr = None, property_attr = Some ''og:title'', content_attr = Some ''First''\<rparr>"

definition og_description :: meta_tag where
  "og_description =
     \<lparr>name_attr = None, property_attr = Some ''og:description'', content_attr = Some ''About''\<rparr>"

definition og_second :: meta_tag where
  "og_second = \<lparr>name_attr = None, property_attr = Some ''og:title'', content_attr = Some ''Second''\<rparr>"

definition viewport :: meta_tag where
  "viewport =
     \<lparr>name_attr = Some ''viewport'', property_attr = None, content_attr = Some ''width=device-width''\<rparr>"

section \<open>The keys the pipeline stores\<close>

text \<open>
  The keys under which the pipeline stores anything before it adds \<open>url\<close> and
  \<open>fetchedAt\<close>: the four fixed ones and the names that contain \<open>og:\<close>.
\<close>

definition harvested_key :: "string \<Rightarrow> bool" where
  "harvested_key k =
     (k \<in> set [''title'', ''author'', ''description'', ''keywords''] \<or> js_includes k ''og:'')"

section \<open>Assembly and the shape of a result\<close>

lemma foldl_append_concat: "foldl (\<lambda>acc x. acc @ f x) acc xs = acc @ concat (map f xs)"
  by (induction xs arbitrary: acc) simp_all

lemma assemble_eq:
  "assemble inc m md =
     (if inc \<and> m \<noteq> []
      then ''---'' @ NL @ concat (map front_matter_line m) @ ''---'' @ NL @ NL
      else []) @ md"
  by (simp add: assemble_def foldl_append_concat)

lemma axios_get_rejected:
  "transport env w u t = Inr r \<Longrightarrow> 400 \<le> status r \<Longrightarrow>
     axios_get env w u t =
       Inl (AxiosError (Some r) True (''Request failed with status code '' @ show_nat (status r)))"
  by (simp add: axios_get_def validateStatus_def)

lemma axios_get_resolved:
  "transport env w u t = Inr r \<Longrightarrow> status r < 400 \<Longrightarrow> axios_get env w u t = Inr r"
  by (simp add: axios_get_def validateStatus_def)

lemma snd_fetchSingleUrl: "snd (fetchSingleUrl env w u inc simp t) = w @ [u]"
  by (simp add: fetchSingleUrl_def)

section \<open>HTTP status errors\<close>

text \<open>
  C3. When the server answers with a status of 400 or more, \<open>fetchSingleUrl\<close> returns
  a failure whose message is \<open>HTTP <status>: <statusText>\<close>, with the status and the
  status text of that response, whatever the flags and the body are.
\<close>

theorem fetchSingleUrl_http_status_error:
  "transport env w u t = Inr r \<Longrightarrow> 400 \<le> status r \<Longrightarrow>
     fst (fetchSingleUrl env w u inc simp t) =
       \<lparr>success = False, content = None,
        error = Some (''HTTP '' @ show_nat (status r) @ '': '' @ statusText r)\<rparr>"
  by (simp add: fetchSingleUrl_def try_block_def axios_get_rejected catch_block_def)

theorem fetchSingleUrl_http_status_error_witness:
  "transport example_env [] url_missing 30000 =
     Inr \<lparr>status = 404, statusText = ''Not Found'', data = []\<rparr> \<and>
   fst (fetchSingleUrl example_env [] url_missing False True 30000) =
     \<lparr>success = False, content = None, error = Some ''HTTP 404: Not Found''\<rparr>"
proof -
  have t: "transport example_env [] url_missing 30000 =
     Inr \<lparr>status = 404, statusText = ''Not Found'', data = []\<rparr>"
    by (simp add: example_env_def example_transport_def)
  have n: "show_nat 404 = ''404''"
    by code_simp
  from fetchSingleUrl_http_status_error [OF t, of False True] t n show ?thesis
    by simp
qed

section \<open>The single-URL tool on an empty text\<close>

lemma blank_page_simplified:
  "fst (fetchSingleUrl example_env [] url_blank False True 30000) =
     \<lparr>success = True, content = Some [], error = None\<rparr>"
  by code_simp

text \<open>
  C10. When \<open>fetchSingleUrl\<close> succeeds with the empty string as its text, the
  \<open>fetch_url\<close> tool answers with the error flag set and the text
  \<open>Error fetching <url>: Unknown error\<close>: the handler tests the truthiness of the content.
\<close>

theorem fetch_url_empty_content_is_error:
  "fst (fetchSingleUrl env w u inc simp t) = \<lparr>success = True, content = Some [], error = None\<rparr> \<Longrightarrow>
     fst (fetch_url env w u inc simp t) =
       \<lparr>text_item = ''Error fetching '' @ u @ '': Unknown error'', isError = True\<rparr>"
  by (simp add: fetch_url_def split_beta truthy_def js_or_def js_str_def)

theorem fetch_url_empty_content_is_error_witness:
  "fst (fetchSingleUrl example_env [] url_blank False True 30000) =
     \<lparr>success = True, content = Some [], error = None\<rparr> \<and>
   fst (fetch_url example_env [] url_blank False True 30000) =
     \<lparr>text_item = ''Error fetching https://example.com/blank: Unknown error'', isError = True\<rparr>"
  using fetch_url_empty_content_is_error [OF blank_page_simplified] blank_page_simplified
  by (simp add: url_blank_def)

section \<open>The batch loop\<close>

lemma fetch_loop_acc:
  "fetch_loop env inc simp t urls acc w =
     (acc @ fst (fetch_loop env inc simp t urls [] w), w @ urls)"
proof (induction urls arbitrary: acc w)
  case Nil
  show ?case by simp
next
  case (Cons u urls)
  show ?case
    apply (simp add: split_beta snd_fetchSingleUrl)
    apply (subst Cons.IH)
    apply (subst (2) Cons.IH)
    apply simp
    done
qed

lemma fetch_loop_Cons:
  "fst (fetch_loop env inc simp t (u # urls) [] w) =
     batch_entry u (fst (fetchSingleUrl env w u inc simp t))
       # fst (fetch_loop env inc simp t urls [] (w @ [u]))"
  apply (simp add: split_beta snd_fetchSingleUrl)
  apply (subst fetch_loop_acc)
  apply simp
  done

lemma fetch_loop_length: "length (fst (fetch_loop env inc simp t urls [] w)) = length urls"
  by (induction urls arbitrary: w) (simp_all add: fetch_loop_Cons del: fetch_loop.simps(2))

lemma url_batch_entry: "url (batch_entry u r) = u"
  by (simp add: batch_entry_def)

lemma fetch_loop_urls: "map url (fst (fetch_loop env inc simp t urls [] w)) = urls"
  by (induction urls arbitrary: w)
     (simp_all add: fetch_loop_Cons url_batch_entry del: fetch_loop.simps(2))

lemma fetch_loop_nth:
  "i < length urls \<Longrightarrow>
     fst (fetch_loop env inc simp t urls [] w) ! i =
       batch_entry (urls ! i) (fst (fetchSingleUrl env (w @ take i urls) (urls ! i) inc simp t))"
proof (induction urls arbitrary: w i)
  case Nil
  then show ?case by simp
next
  case (Cons u urls)
  show ?case
  proof (cases i)
    case 0
    then show ?thesis by (simp add: fetch_loop_Cons del: fetch_loop.simps(2))
  next
    case (Suc j)
    with Cons.prems have "j < length urls" by simp
    from Cons.IH [OF this, of "w @ [u]"] Suc show ?thesis
      by (simp add: fetch_loop_Cons del: fetch_loop.simps(2))
  qed
qed

text \<open>
  C1. The first loop of \<open>fetch_urls\<close> calls \<open>fetchSingleUrl\<close> once for every URL of
  the list, one after the other in the order of the list, and stops at no failure: the
  requests issued are exactly the URLs in their order, there are as many results as
  URLs, the result at each position carries the URL at that position, and it is the
  result of fetching that URL in the world left by the fetches before it.
\<close>

theorem fetch_loop_one_outcome_per_url:
  "fetch_loop env inc simp t urls [] w = (results, w') \<Longrightarrow>
     length results = length urls \<and>
     map url results = urls \<and>
     w' = w @ urls \<and>
     (\<forall>i<length urls. results ! i =
        batch_entry (urls ! i) (fst (fetchSingleUrl env (w @ take i urls) (urls ! i) inc simp t)))"
proof -
  assume run: "fetch_loop env inc simp t urls [] w = (results, w')"
  have res: "results = fst (fetch_loop env inc simp t urls [] w)"
    using run by simp
  have "w' = snd (fetch_loop env inc simp t urls [] w)"
    using run by simp
  then have "w' = w @ urls"
    by (subst (asm) fetch_loop_acc) simp
  then show ?thesis
    by (simp add: res fetch_loop_length fetch_loop_urls fetch_loop_nth)
qed

lemma example_batch:
  "fetch_loop example_env False True 30000 [url_missing, url_hello] [] [] =
     ([\<lparr>success = False, content = None, error = Some ''HTTP 404: Not Found'', url = url_missing\<rparr>,
       \<lparr>success = True, content = Some ''Hello'', error = None, url = url_hello\<rparr>],
      [url_missing, url_hello])"
  by code_simp

theorem fetch_loop_one_outcome_per_url_witness:
  "fetch_loop example_env False True 30000 [url_missing, url_hello] [] [] =
     ([\<lparr>success = False, content = None, error = Some ''HTTP 404: Not Found'', url = url_missing\<rparr>,
       \<lparr>success = True, content = Some ''Hello'', error = None, url = url_hello\<rparr>],
      [url_missing, url_hello]) \<and>
   [\<lparr>success = False, content = None, error = Some ''HTTP 404: Not Found'', url = url_missing\<rparr>,
    \<lparr>success = True, content = Some ''Hello'', error = None, url = url_hello\<rparr>] ! 1 =
     batch_entry url_hello (fst (fetchSingleUrl example_env [url_missing] url_hello False True 30000))"
proof -
  from fetch_loop_one_outcome_per_url [OF example_batch]
  have "[\<lparr>success = False, content = None, error = Some ''HTTP 404: Not Found'', url = url_missing\<rparr>,
    \<lparr>success = True, content = Some ''Hello'', error = None, url = url_hello\<rparr>] ! 1 =
     batch_entry ([url_missing, url_hello] ! 1)
       (fst (fetchSingleUrl example_env ([] @ take 1 [url_missing, url_hello])
          ([url_missing, url_hello] ! 1) False True 30000))"
    by (elim conjE allE [of _ 1]) simp
  then show ?thesis
    using example_batch by simp
qed

section \<open>The batch report\<close>

lemma fetchSingleUrl_shape:
  "(\<exists>txt. fst (fetchSingleUrl env w u inc simp t) =
            \<lparr>success = True, content = Some txt, error = None\<rparr>) \<or>
   (\<exists>msg. fst (fetchSingleUrl env w u inc simp t) =
            \<lparr>success = False, content = None, error = Some msg\<rparr>)"
  by (simp add: fetchSingleUrl_def split: sum.split)

lemma render_success:
  "success r \<Longrightarrow> content r = Some txt \<Longrightarrow>
     render_result (batch_entry u r) =
       ''## '' @ u @ NL @ NL @ txt @ NL @ NL @ ''---'' @ NL @ NL"
  by (simp add: render_result_def batch_entry_def js_str_def)

lemma render_failure:
  "\<not> success r \<Longrightarrow> error r = Some msg \<Longrightarrow>
     render_result (batch_entry u r) =
       ''## '' @ u @ NL @ NL @ ''**Error:** '' @ msg @ NL @ NL @ ''---'' @ NL @ NL"
  by (simp add: render_result_def batch_entry_def js_str_def)

lemma render_report_eq:
  "render_report results = ''# Batch Fetch Results'' @ NL @ NL @ concat (map render_result results)"
  by (simp add: render_report_def foldl_append_concat)

text \<open>
  C8. \<open>fetch_urls\<close> never sets the error flag. Its text is the heading
  \<open># Batch Fetch Results\<close> followed by one section per URL in the order of the list:
  the subheading with the URL, then the text of the fetch when it succeeded or the line
  \<open>**Error:** <message>\<close> when it failed, then the rule \<open>---\<close>.
\<close>

theorem fetch_urls_report:
  "fetch_urls env w urls inc simp t = (res, w') \<Longrightarrow>
     isError res = False \<and>
     (\<exists>sections. length sections = length urls \<and>
        text_item res = ''# Batch Fetch Results'' @ NL @ NL @ concat sections \<and>
        (\<forall>i<length urls.
           (\<exists>txt. fst (fetchSingleUrl env (w @ take i urls) (urls ! i) inc simp t) =
                    \<lparr>success = True, content = Some txt, error = None\<rparr> \<and>
                  sections ! i = ''## '' @ urls ! i @ NL @ NL @ txt @ NL @ NL @ ''---'' @ NL @ NL) \<or>
           (\<exists>msg. fst (fetchSingleUrl env (w @ take i urls) (urls ! i) inc simp t) =
                    \<lparr>success = False, content = None, error = Some msg\<rparr> \<and>
                  sections ! i =
                    ''## '' @ urls ! i @ NL @ NL @ ''**Error:** '' @ msg @ NL @ NL @ ''---'' @ NL @ NL)))"
proof -
  assume run: "fetch_urls env w urls inc simp t = (res, w')"
  define results where "results = fst (fetch_loop env inc simp t urls [] w)"
  have res: "res = \<lparr>text_item = render_report results, isError = False\<rparr>"
    using run by (simp add: fetch_urls_def split_beta results_def)
  have len: "length (map render_result results) = length urls"
    by (simp add: results_def fetch_loop_length)
  have sect: "(\<exists>txt. fst (fetchSingleUrl env (w @ take i urls) (urls ! i) inc simp t) =
                    \<lparr>success = True, content = Some txt, error = None\<rparr> \<and>
                  map render_result results ! i =
                    ''## '' @ urls ! i @ NL @ NL @ txt @ NL @ NL @ ''---'' @ NL @ NL) \<or>
           (\<exists>msg. fst (fetchSingleUrl env (w @ take i urls) (urls ! i) inc simp t) =
                    \<lparr>success = False, content = None, error = Some msg\<rparr> \<and>
                  map render_result results ! i =
                    ''## '' @ urls ! i @ NL @ NL @ ''**Error:** '' @ msg @ NL @ NL @ ''---'' @ NL @ NL)"
    if i: "i < length urls" for i
  proof -
    let ?r = "fst (fetchSingleUrl env (w @ take i urls) (urls ! i) inc simp t)"
    have nth: "map render_result results ! i = render_result (batch_entry (urls ! i) ?r)"
      using i by (simp add: results_def fetch_loop_length fetch_loop_nth)
    from fetchSingleUrl_shape [of env "w @ take i urls" "urls ! i" inc simp t]
    show ?thesis
    proof
      assume "\<exists>txt. ?r = \<lparr>success = True, content = Some txt, error = None\<rparr>"
      then obtain c where r: "?r = \<lparr>success = True, content = Some c, error = None\<rparr>"
        by blast
      then have "render_result (batch_entry (urls ! i) ?r) =
          ''## '' @ urls ! i @ NL @ NL @ c @ NL @ NL @ ''---'' @ NL @ NL"
        by (simp add: render_success)
      with r nth show ?thesis by simp
    next
      assume "\<exists>msg. ?r = \<lparr>success = False, content = None, error = Some msg\<rparr>"
      then obtain msg where r: "?r = \<lparr>success = False, content = None, error = Some msg\<rparr>"
        by blast
      then have "render_result (batch_entry (urls ! i) ?r) =
          ''## '' @ urls ! i @ NL @ NL @ ''**Error:** '' @ msg @ NL @ NL @ ''---'' @ NL @ NL"
        by (simp add: render_failure)
      with r nth show ?thesis by simp
    qed
  qed
  have "text_item res = ''# Batch Fetch Results'' @ NL @ NL @ concat (map render_result results)"
    by (simp add: res render_report_eq)
  with len sect have "\<exists>sections. length sections = length urls \<and>
        text_item res = ''# Batch Fetch Results'' @ NL @ NL @ concat sections \<and>
        (\<forall>i<length urls.
           (\<exists>txt. fst (fetchSingleUrl env (w @ take i urls) (urls ! i) inc simp t) =
                    \<lparr>success = True, content = Some txt, error = None\<rparr> \<and>
                  sections ! i = ''## '' @ urls ! i @ NL @ NL @ txt @ NL @ NL @ ''---'' @ NL @ NL) \<or>
           (\<exists>msg. fst (fetchSingleUrl env (w @ take i urls) (urls ! i) inc simp t) =
                    \<lparr>success = False, content = None, error = Some msg\<rparr> \<and>
                  sections ! i =
                    ''## '' @ urls ! i @ NL @ NL @ ''**Error:** '' @ msg @ NL @ NL @ ''---'' @ NL @ NL))"
    by blast
  then show ?thesis
    by (simp add: res)
qed

lemma example_report:
  "fetch_urls example_env [] [url_missing, url_hello] False True 30000 =
     (\<lparr>text_item =
         ''# Batch Fetch Results\<newline>\<newline>## https://example.com/missing\<newline>\<newline>**Error:** HTTP 404: Not Found\<newline>\<newline>---\<newline>\<newline>## https://example.com/hello\<newline>\<newline>Hello\<newline>\<newline>---\<newline>\<newline>'',
       isError = False\<rparr>,
      [url_missing, url_hello])"
  by code_simp

theorem fetch_urls_report_witness:
  "fetch_urls example_env [] [url_missing, url_hello] False True 30000 =
     (\<lparr>text_item =
         ''# Batch Fetch Results\<newline>\<newline>## https://example.com/missing\<newline>\<newline>**Error:** HTTP 404: Not Found\<newline>\<newline>---\<newline>\<newline>## https://example.com/hello\<newline>\<newline>Hello\<newline>\<newline>---\<newline>\<newline>'',
       isError = False\<rparr>,
      [url_missing, url_hello]) \<and>
   isError (fst (fetch_urls example_env [] [url_missing, url_hello] False True 30000)) = False"
proof -
  from fetch_urls_report [OF example_report, THEN conjunct1] example_report show ?thesis
    by simp
qed

section \<open>The metadata of a successful fetch\<close>

lemma set_prop_new: "k \<notin> fst ` set m \<Longrightarrow> set_prop k v m = m @ [(k, v)]"
  by (induction m) auto

lemma map_of_set_prop: "map_of (set_prop k v m) = (map_of m)(k \<mapsto> v)"
  by (induction m) (auto simp add: fun_eq_iff)

lemma set_prop_all:
  "\<forall>p\<in>set m. P (fst p) \<Longrightarrow> P k \<Longrightarrow> \<forall>p\<in>set (set_prop k v m). P (fst p)"
  by (induction m) auto

lemma meta_step_keys:
  assumes "\<forall>p\<in>set m. harvested_key (fst p)"
  shows "\<forall>p\<in>set (meta_step m tag). harvested_key (fst p)"
proof -
  have fixed: "harvested_key ''description''" "harvested_key ''author''" "harvested_key ''keywords''"
    by (simp_all add: harvested_key_def)
  have og: "harvested_key k" if "js_includes k ''og:''" for k
    using that by (simp add: harvested_key_def)
  show ?thesis
    unfolding meta_step_def
    by (simp only: split: prod.split option.split if_split)
       (intro conjI allI impI assms set_prop_all [OF assms] fixed og; assumption)
qed

lemma foldl_meta_step_keys:
  "\<forall>p\<in>set m. harvested_key (fst p) \<Longrightarrow>
     \<forall>p\<in>set (foldl meta_step m tags). harvested_key (fst p)"
proof (induction tags arbitrary: m)
  case Nil
  then show ?case by simp
next
  case (Cons tag tags)
  from Cons.prems have "\<forall>p\<in>set (meta_step m tag). harvested_key (fst p)"
    by (rule meta_step_keys)
  then show ?case
    using Cons.IH by simp
qed

lemma title_fallback_keys:
  assumes "\<forall>p\<in>set m. harvested_key (fst p)"
  shows "\<forall>p\<in>set (title_fallback doc m). harvested_key (fst p)"
proof -
  have "harvested_key ''title''"
    by (simp add: harvested_key_def)
  from set_prop_all [OF assms, of "''title''", OF this] assms show ?thesis
    by (simp add: title_fallback_def split: option.split)
qed

lemma convert_body_keys:
  "convert_body env u inc simp html = Inr (md, seeded) \<Longrightarrow>
     \<forall>p\<in>set seeded. harvested_key (fst p)"
  by (auto simp add: convert_body_def Let_def harvested_key_def
        split: if_splits option.splits sum.splits)

lemma not_harvested: "\<not> harvested_key ''url''" "\<not> harvested_key ''fetchedAt''"
  by (simp_all add: harvested_key_def)

lemma harvest_appends:
  assumes keys: "\<forall>p\<in>set seeded. harvested_key (fst p)"
      and doc: "jsdom env html = Inr doc"
  shows "harvest env w u html seeded =
           Inr (foldl meta_step (title_fallback doc seeded) (meta_tags doc)
                  @ [(''url'', u), (''fetchedAt'', clock env w)])"
proof -
  let ?found = "foldl meta_step (title_fallback doc seeded) (meta_tags doc)"
  have found: "\<forall>p\<in>set ?found. harvested_key (fst p)"
    using keys by (intro foldl_meta_step_keys title_fallback_keys)
  then have "''url'' \<notin> fst ` set ?found"
    using not_harvested(1) by auto
  then have url: "set_prop ''url'' u ?found = ?found @ [(''url'', u)]"
    by (rule set_prop_new)
  have "''fetchedAt'' \<notin> fst ` set ?found"
    using found not_harvested(2) by auto
  then have "''fetchedAt'' \<notin> fst ` set (?found @ [(''url'', u)])"
    by simp
  then have "set_prop ''fetchedAt'' (clock env w) (?found @ [(''url'', u)]) =
      (?found @ [(''url'', u)]) @ [(''fetchedAt'', clock env w)]"
    by (rule set_prop_new)
  with url doc show ?thesis
    by (simp add: harvest_def)
qed

lemma try_block_Inr:
  assumes "try_block env w u inc simp t = Inr text"
  shows "\<exists>r md seeded. axios_get env w u t = Inr r \<and>
           convert_body env u inc simp (data r) = Inr (md, seeded) \<and>
           (if inc
            then \<exists>doc. jsdom env (data r) = Inr doc \<and>
                   text = assemble True
                     (foldl meta_step (title_fallback doc seeded) (meta_tags doc)
                        @ [(''url'', u), (''fetchedAt'', clock env (w @ [u]))]) md
            else text = md)"
proof -
  from assms obtain r where r: "axios_get env w u t = Inr r"
    by (auto simp add: try_block_def split: sum.splits)
  with assms obtain md seeded where c: "convert_body env u inc simp (data r) = Inr (md, seeded)"
    by (auto simp add: try_block_def split: sum.splits)
  show ?thesis
  proof (cases inc)
    case False
    with assms r c have "text = md"
      by (simp add: try_block_def assemble_eq)
    with r c False show ?thesis by auto
  next
    case True
    with assms r c obtain m where h: "harvest env (w @ [u]) u (data r) seeded = Inr m"
      and final: "text = assemble True m md"
      by (auto simp add: try_block_def split: sum.splits)
    from h obtain doc where doc: "jsdom env (data r) = Inr doc"
      by (auto simp add: harvest_def split: sum.splits)
    from harvest_appends [OF convert_body_keys [OF c] doc, of "w @ [u]" u] h
    have "m = foldl meta_step (title_fallback doc seeded) (meta_tags doc)
                        @ [(''url'', u), (''fetchedAt'', clock env (w @ [u]))]"
      by simp
    with r c True doc final show ?thesis by auto
  qed
qed

text \<open>
  C7. When metadata is requested and the fetch succeeds, the metadata ends with the
  entries \<open>url\<close> (the URL of the request) and \<open>fetchedAt\<close> (the time read from the
  clock), after whatever the article, the title and the \<open>meta\<close> elements gave, and the
  text opens with the front-matter block: \<open>---\<close>, one \<open>key: value\<close> line per entry in
  order, \<open>---\<close> and an empty line. For a document with no title and no \<open>meta\<close>
  element, and no article, the block holds exactly the two lines \<open>url\<close> and \<open>fetchedAt\<close>.
\<close>

theorem front_matter_url_fetchedAt:
  assumes "fst (fetchSingleUrl env w u True simp t) =
             \<lparr>success = True, content = Some final, error = None\<rparr>"
  shows "\<exists>r markdownContent seeded doc.
           axios_get env w u t = Inr r \<and>
           convert_body env u True simp (data r) = Inr (markdownContent, seeded) \<and>
           jsdom env (data r) = Inr doc \<and>
           final = ''---'' @ NL @
             concat (map front_matter_line
               (foldl meta_step (title_fallback doc seeded) (meta_tags doc)
                  @ [(''url'', u), (''fetchedAt'', clock env (w @ [u]))])) @
             ''---'' @ NL @ NL @ markdownContent \<and>
           (title_text doc = None \<and> meta_tags doc = [] \<and> seeded = [] \<longrightarrow>
              final = ''---'' @ NL @ ''url: '' @ u @ NL @
                ''fetchedAt: '' @ clock env (w @ [u]) @ NL @ ''---'' @ NL @ NL @ markdownContent)"
proof -
  from assms have "try_block env w u True simp t = Inr final"
    by (simp add: fetchSingleUrl_def split: sum.splits)
  from try_block_Inr [OF this] obtain r md seeded doc where
    r: "axios_get env w u t = Inr r" and
    c: "convert_body env u True simp (data r) = Inr (md, seeded)" and
    doc: "jsdom env (data r) = Inr doc" and
    final: "final = assemble True
              (foldl meta_step (title_fallback doc seeded) (meta_tags doc)
                 @ [(''url'', u), (''fetchedAt'', clock env (w @ [u]))]) md"
    by auto
  have shape: "final = ''---'' @ NL @
             concat (map front_matter_line
               (foldl meta_step (title_fallback doc seeded) (meta_tags doc)
                  @ [(''url'', u), (''fetchedAt'', clock env (w @ [u]))])) @
             ''---'' @ NL @ NL @ md"
    by (simp add: final assemble_eq)
  have bare: "final = ''---'' @ NL @ ''url: '' @ u @ NL @
                ''fetchedAt: '' @ clock env (w @ [u]) @ NL @ ''---'' @ NL @ NL @ md"
    if "title_text doc = None" "meta_tags doc = []" "seeded = []"
    by (subst shape) (simp add: that title_fallback_def truthy_def front_matter_line_def)
  show ?thesis
  proof (intro exI conjI impI)
    show "axios_get env w u t = Inr r"
      by (rule r)
    show "convert_body env u True simp (data r) = Inr (md, seeded)"
      by (rule c)
    show "jsdom env (data r) = Inr doc"
      by (rule doc)
    show "final = ''---'' @ NL @
             concat (map front_matter_line
               (foldl meta_step (title_fallback doc seeded) (meta_tags doc)
                  @ [(''url'', u), (''fetchedAt'', clock env (w @ [u]))])) @
             ''---'' @ NL @ NL @ md"
      by (rule shape)
    show "final = ''---'' @ NL @ ''url: '' @ u @ NL @
                ''fetchedAt: '' @ clock env (w @ [u]) @ NL @ ''---'' @ NL @ NL @ md"
      if "title_text doc = None \<and> meta_tags doc = [] \<and> seeded = []"
      using that by (intro bare) simp_all
  qed
qed

lemma example_front_matter:
  "fst (fetchSingleUrl example_env [] url_hello True True 30000) =
     \<lparr>success = True,
      content = Some ''---\<newline>url: https://example.com/hello\<newline>fetchedAt: 2024-01-01T00:00:00.000Z\<newline>---\<newline>\<newline>Hello'',
      error = None\<rparr>"
  by code_simp

text \<open>
  A page with the title \<open>Hello\<close>, one \<open>meta\<close> element naming the author \<open>Jane\<close> and no
  article: the front matter holds the title, the author, the URL and the time, in this
  order, and the body is the markdown of the full document.
\<close>

lemma example_scenario:
  "fst (fetchSingleUrl example_env [] url_a True True 30000) =
     \<lparr>success = True,
      content = Some ''---\<newline>title: Hello\<newline>author: Jane\<newline>url: https://example.com/a\<newline>fetchedAt: 2024-01-01T00:00:00.000Z\<newline>---\<newline>\<newline>Hello'',
      error = None\<rparr>"
  by code_simp

theorem front_matter_url_fetchedAt_witness:
  "fst (fetchSingleUrl example_env [] url_hello True True 30000) =
     \<lparr>success = True,
      content = Some ''---\<newline>url: https://example.com/hello\<newline>fetchedAt: 2024-01-01T00:00:00.000Z\<newline>---\<newline>\<newline>Hello'',
      error = None\<rparr> \<and>
   (\<exists>r markdownContent seeded doc.
      axios_get example_env [] url_hello 30000 = Inr r \<and>
      convert_body example_env url_hello True True (data r) = Inr (markdownContent, seeded) \<and>
      jsdom example_env (data r) = Inr doc \<and>
      ''---\<newline>url: https://example.com/hello\<newline>fetchedAt: 2024-01-01T00:00:00.000Z\<newline>---\<newline>\<newline>Hello'' =
        ''---'' @ NL @
        concat (map front_matter_line
          (foldl meta_step (title_fallback doc seeded) (meta_tags doc)
             @ [(''url'', url_hello), (''fetchedAt'', clock example_env ([] @ [url_hello]))])) @
        ''---'' @ NL @ NL @ markdownContent)"
proof -
  from front_matter_url_fetchedAt [OF example_front_matter]
  have "\<exists>r markdownContent seeded doc.
      axios_get example_env [] url_hello 30000 = Inr r \<and>
      convert_body example_env url_hello True True (data r) = Inr (markdownContent, seeded) \<and>
      jsdom example_env (data r) = Inr doc \<and>
      ''---\<newline>url: https://example.com/hello\<newline>fetchedAt: 2024-01-01T00:00:00.000Z\<newline>---\<newline>\<newline>Hello'' =
        ''---'' @ NL @
        concat (map front_matter_line
          (foldl meta_step (title_fallback doc seeded) (meta_tags doc)
             @ [(''url'', url_hello), (''fetchedAt'', clock example_env ([] @ [url_hello]))])) @
        ''---'' @ NL @ NL @ markdownContent"
    by blast
  with example_front_matter show ?thesis
    by blast
qed

section \<open>Successful fetches and the empty text\<close>

lemma fetchSingleUrl_Inr:
  "try_block env w u inc simp t = Inr final \<Longrightarrow>
     fst (fetchSingleUrl env w u inc simp t) =
       \<lparr>success = True, content = Some final, error = None\<rparr>"
  by (simp add: fetchSingleUrl_def)

lemma try_block_resolved:
  assumes r: "axios_get env w u t = Inr r"
      and c: "convert_body env u inc simp (data r) = Inr (md, seeded)"
      and d: "inc \<longrightarrow> (\<exists>doc. jsdom env (data r) = Inr doc)"
  shows "\<exists>front. try_block env w u inc simp t = Inr (front @ md) \<and> (front = [] \<longleftrightarrow> \<not> inc)"
proof (cases inc)
  case False
  with r c have "try_block env w u inc simp t = Inr ([] @ md)"
    by (simp add: try_block_def assemble_eq)
  with False show ?thesis by blast
next
  case True
  with d obtain doc where doc: "jsdom env (data r) = Inr doc" by blast
  let ?m = "foldl meta_step (title_fallback doc seeded) (meta_tags doc)
              @ [(''url'', u), (''fetchedAt'', clock env (w @ [u]))]"
  let ?front = "''---'' @ NL @ concat (map front_matter_line ?m) @ ''---'' @ NL @ NL"
  from harvest_appends [OF convert_body_keys [OF c] doc, of "w @ [u]" u]
  have "harvest env (w @ [u]) u (data r) seeded = Inr ?m" .
  with r c True have "try_block env w u inc simp t = Inr (?front @ md)"
    by (simp add: try_block_def assemble_eq)
  moreover have "?front \<noteq> []" by simp
  ultimately show ?thesis using True by blast
qed

text \<open>
  C2, as the code has it. When the server answers with a status below 400 and neither
  the conversion of the body nor, with metadata requested, the parsing of the document
  throws, \<open>fetchSingleUrl\<close> returns a success. Its text is the front matter followed by
  the markdown body; the front matter is there exactly when metadata is requested. So
  the text is empty exactly when no metadata is requested and the markdown body is empty.
\<close>

theorem fetchSingleUrl_success_text:
  assumes "transport env w u t = Inr r" and "status r < 400"
      and "convert_body env u inc simp (data r) = Inr (markdownContent, seeded)"
      and "inc \<longrightarrow> (\<exists>doc. jsdom env (data r) = Inr doc)"
  shows "\<exists>front. fst (fetchSingleUrl env w u inc simp t) =
                    \<lparr>success = True, content = Some (front @ markdownContent), error = None\<rparr> \<and>
                  (front = [] \<longleftrightarrow> \<not> inc) \<and>
                  (front @ markdownContent = [] \<longleftrightarrow> \<not> inc \<and> markdownContent = [])"
proof -
  from assms(1,2) have "axios_get env w u t = Inr r"
    by (rule axios_get_resolved)
  from try_block_resolved [OF this assms(3,4)] obtain front where
    "try_block env w u inc simp t = Inr (front @ markdownContent)" and "front = [] \<longleftrightarrow> \<not> inc"
    by blast
  then show ?thesis
    using fetchSingleUrl_Inr by auto
qed

text \<open>
  C2, as stated, fails: a page with an empty body is served with status 200, parses and
  converts to the empty markdown, and the fetch succeeds with the empty text.
\<close>

theorem fetchSingleUrl_empty_success:
  "transport example_env [] url_blank 30000 =
     Inr \<lparr>status = 200, statusText = ''OK'', data = page_blank\<rparr> \<and>
   jsdom example_env page_blank = Inr \<lparr>title_text = None, meta_tags = []\<rparr> \<and>
   turndown example_env page_blank = Inr [] \<and>
   fst (fetchSingleUrl example_env [] url_blank False False 30000) =
     \<lparr>success = True, content = Some [], error = None\<rparr>"
  by code_simp

lemma hello_response:
  "transport example_env [] url_hello 30000 =
     Inr \<lparr>status = 200, statusText = ''OK'', data = page_hello\<rparr>"
  by code_simp

lemma hello_converted:
  "convert_body example_env url_hello True True
     (data \<lparr>status = 200, statusText = ''OK'', data = page_hello\<rparr>) = Inr (''Hello'', [])"
  by code_simp

lemma hello_parsed:
  "True \<longrightarrow> (\<exists>doc. jsdom example_env (data \<lparr>status = 200, statusText = ''OK'', data = page_hello\<rparr>) = Inr doc)"
  by (simp add: example_env_def example_jsdom_def)

theorem fetchSingleUrl_success_text_witness:
  "transport example_env [] url_hello 30000 =
     Inr \<lparr>status = 200, statusText = ''OK'', data = page_hello\<rparr> \<and>
   status \<lparr>status = 200, statusText = ''OK'', data = page_hello\<rparr> < 400 \<and>
   convert_body example_env url_hello True True page_hello = Inr (''Hello'', []) \<and>
   (\<exists>doc. jsdom example_env page_hello = Inr doc) \<and>
   (\<exists>front. fst (fetchSingleUrl example_env [] url_hello True True 30000) =
              \<lparr>success = True, content = Some (front @ ''Hello''), error = None\<rparr> \<and>
            front \<noteq> [])"
proof -
  have small: "status \<lparr>status = 200, statusText = ''OK'', data = page_hello\<rparr> < 400"
    by simp
  from fetchSingleUrl_success_text [OF hello_response small hello_converted hello_parsed]
  have "\<exists>front. fst (fetchSingleUrl example_env [] url_hello True True 30000) =
              \<lparr>success = True, content = Some (front @ ''Hello''), error = None\<rparr> \<and>
            front \<noteq> []"
    by simp
  with hello_response small hello_converted hello_parsed show ?thesis
    by simp
qed

section \<open>The fallback to the full document\<close>

lemma convert_body_fallback:
  "extractReadableContent env html u = None \<Longrightarrow>
     convert_body env u inc True html = convert_body env u inc False html"
  by (simp add: convert_body_def)

lemma convert_body_full:
  "convert_body env u inc False html =
     (case turndown env html of Inl e \<Rightarrow> Inl e | Inr md \<Rightarrow> Inr (md, []))"
  by (simp add: convert_body_def)

lemma harvest_unseeded:
  "harvest env w u html [] =
     (case jsdom env html of
        Inl e \<Rightarrow> Inl e
      | Inr doc \<Rightarrow>
          Inr (foldl meta_step (title_fallback doc []) (meta_tags doc)
                 @ [(''url'', u), (''fetchedAt'', clock env w)]))"
proof (cases "jsdom env html")
  case (Inl e)
  then show ?thesis by (simp add: harvest_def)
next
  case (Inr doc)
  have "\<forall>p\<in>set ([] :: metadata). harvested_key (fst p)" by simp
  from harvest_appends [OF this Inr] Inr show ?thesis by simp
qed

lemma try_block_full:
  assumes r: "axios_get env w u t = Inr r"
  shows "try_block env w u inc False t =
     (case turndown env (data r) of
        Inl e \<Rightarrow> Inl e
      | Inr md \<Rightarrow>
          if inc then
            (case jsdom env (data r) of
               Inl e \<Rightarrow> Inl e
             | Inr doc \<Rightarrow>
                 Inr (''---'' @ NL @
                      concat (map front_matter_line
                        (foldl meta_step (title_fallback doc []) (meta_tags doc)
                           @ [(''url'', u), (''fetchedAt'', clock env (w @ [u]))])) @
                      ''---'' @ NL @ NL @ md))
          else Inr md)"
  by (simp add: try_block_def r convert_body_full harvest_unseeded assemble_eq
        split: sum.splits)

text \<open>
  C6, as the code has it. With \<open>simplify\<close> set, the response accepted and no article
  extracted, the fetch returns what the same request returns with \<open>simplify\<close> unset,
  and it always returns a result. When the converter throws on the full HTML, or
  metadata is requested and the parser throws, the result is a failure with the message
  of the catch block. Otherwise it is a success: its text is the conversion of the full
  HTML, preceded by the front matter when metadata is requested. So the text is empty
  exactly when no metadata is requested and the full HTML converts to the empty markdown.
\<close>

theorem fallback_is_full_conversion:
  assumes "transport env w u t = Inr r" and "status r < 400"
      and "extractReadableContent env (data r) u = None"
  shows "fetchSingleUrl env w u inc True t = fetchSingleUrl env w u inc False t \<and>
         fst (fetchSingleUrl env w u inc True t) =
           (case turndown env (data r) of
              Inl e \<Rightarrow> \<lparr>success = False, content = None, error = Some (catch_block e)\<rparr>
            | Inr md \<Rightarrow>
                if inc then
                  (case jsdom env (data r) of
                     Inl e \<Rightarrow> \<lparr>success = False, content = None, error = Some (catch_block e)\<rparr>
                   | Inr doc \<Rightarrow>
                       \<lparr>success = True,
                        content = Some (''---'' @ NL @
                          concat (map front_matter_line
                            (foldl meta_step (title_fallback doc []) (meta_tags doc)
                               @ [(''url'', u), (''fetchedAt'', clock env (w @ [u]))])) @
                          ''---'' @ NL @ NL @ md),
                        error = None\<rparr>)
                else \<lparr>success = True, content = Some md, error = None\<rparr>) \<and>
         (fst (fetchSingleUrl env w u inc True t) =
            \<lparr>success = True, content = Some [], error = None\<rparr>
          \<longleftrightarrow> \<not> inc \<and> turndown env (data r) = Inr [])"
proof -
  from assms(1,2) have r: "axios_get env w u t = Inr r"
    by (rule axios_get_resolved)
  have same: "convert_body env u inc True (data r) = convert_body env u inc False (data r)"
    using assms(3) by (rule convert_body_fallback)
  then have eq: "fetchSingleUrl env w u inc True t = fetchSingleUrl env w u inc False t"
    by (simp add: fetchSingleUrl_def try_block_def r)
  have val: "fst (fetchSingleUrl env w u inc False t) =
           (case turndown env (data r) of
              Inl e \<Rightarrow> \<lparr>success = False, content = None, error = Some (catch_block e)\<rparr>
            | Inr md \<Rightarrow>
                if inc then
                  (case jsdom env (data r) of
                     Inl e \<Rightarrow> \<lparr>success = False, content = None, error = Some (catch_block e)\<rparr>
                   | Inr doc \<Rightarrow>
                       \<lparr>success = True,
                        content = Some (''---'' @ NL @
                          concat (map front_matter_line
                            (foldl meta_step (title_fallback doc []) (meta_tags doc)
                               @ [(''url'', u), (''fetchedAt'', clock env (w @ [u]))])) @
                          ''---'' @ NL @ NL @ md),
                        error = None\<rparr>)
                else \<lparr>success = True, content = Some md, error = None\<rparr>)"
    by (simp add: fetchSingleUrl_def try_block_full [OF r] split: sum.splits)
  have empty: "fst (fetchSingleUrl env w u inc False t) =
            \<lparr>success = True, content = Some [], error = None\<rparr>
          \<longleftrightarrow> \<not> inc \<and> turndown env (data r) = Inr []"
    by (simp add: val split: sum.splits)
  from eq val empty show ?thesis
    by simp
qed

text \<open>
  C6, as stated, fails: for the page with an empty body no article is extracted, and
  the fetch with \<open>simplify\<close> set succeeds with the empty text.
\<close>

theorem fallback_empty_output:
  "transport example_env [] url_blank 30000 =
     Inr \<lparr>status = 200, statusText = ''OK'', data = page_blank\<rparr> \<and>
   extractReadableContent example_env page_blank url_blank = None \<and>
   fst (fetchSingleUrl example_env [] url_blank False True 30000) =
     \<lparr>success = True, content = Some [], error = None\<rparr>"
  by code_simp

lemma hello_no_article:
  "extractReadableContent example_env
     (data \<lparr>status = 200, statusText = ''OK'', data = page_hello\<rparr>) url_hello = None"
  by code_simp

lemma hello_markdown: "turndown example_env page_hello = Inr ''Hello''"
  by code_simp

theorem fallback_is_full_conversion_witness:
  "transport example_env [] url_hello 30000 =
     Inr \<lparr>status = 200, statusText = ''OK'', data = page_hello\<rparr> \<and>
   status \<lparr>status = 200, statusText = ''OK'', data = page_hello\<rparr> < 400 \<and>
   extractReadableContent example_env page_hello url_hello = None \<and>
   turndown example_env page_hello = Inr ''Hello'' \<and>
   fetchSingleUrl example_env [] url_hello False True 30000 =
     fetchSingleUrl example_env [] url_hello False False 30000 \<and>
   fst (fetchSingleUrl example_env [] url_hello False True 30000) =
     \<lparr>success = True, content = Some ''Hello'', error = None\<rparr>"
proof -
  have small: "status \<lparr>status = 200, statusText = ''OK'', data = page_hello\<rparr> < 400"
    by simp
  note c6 = fallback_is_full_conversion [OF hello_response small hello_no_article, of False]
  from c6 have "fetchSingleUrl example_env [] url_hello False True 30000 =
     fetchSingleUrl example_env [] url_hello False False 30000"
    by (rule conjunct1)
  moreover from c6 [THEN conjunct2, THEN conjunct1]
  have "fst (fetchSingleUrl example_env [] url_hello False True 30000) =
     \<lparr>success = True, content = Some ''Hello'', error = None\<rparr>"
    by (simp add: hello_markdown)
  ultimately show ?thesis
    using hello_response small hello_no_article hello_markdown by simp
qed

section \<open>The classification of meta elements\<close>

lemma starts_with_iff: "starts_with s sub \<longleftrightarrow> (\<exists>q. s = sub @ q)"
  by (induction s sub rule: starts_with.induct) auto

lemma js_includes_iff: "js_includes s sub \<longleftrightarrow> (\<exists>p q. s = p @ sub @ q)"
proof (induction s)
  case Nil
  show ?case by auto
next
  case (Cons a s)
  show ?case
  proof
    assume "js_includes (a # s) sub"
    then consider "starts_with (a # s) sub" | "js_includes s sub" by auto
    then show "\<exists>p q. a # s = p @ sub @ q"
    proof cases
      case 1
      then obtain q where "a # s = [] @ sub @ q" by (auto simp add: starts_with_iff)
      then show ?thesis by blast
    next
      case 2
      with Cons.IH obtain p q where "s = p @ sub @ q" by blast
      then have "a # s = (a # p) @ sub @ q" by simp
      then show ?thesis by blast
    qed
  next
    assume "\<exists>p q. a # s = p @ sub @ q"
    then obtain p q where pq: "a # s = p @ sub @ q" by blast
    show "js_includes (a # s) sub"
    proof (cases p)
      case Nil
      with pq have "starts_with (a # s) sub" by (auto simp add: starts_with_iff)
      then show ?thesis by simp
    next
      case (Cons b p')
      with pq have "s = p' @ sub @ q" by simp
      with Cons.IH have "js_includes s sub" by blast
      then show ?thesis by simp
    qed
  qed
qed

lemma destination_eq:
  "destination key =
     (if js_includes key ''description'' then Some ''description''
      else if js_includes key ''author'' then Some ''author''
      else if js_includes key ''keywords'' then Some ''keywords''
      else if js_includes key ''og:'' then Some key
      else None)"
  by (simp add: destination_def classification_def)

lemma key_candidate_eq:
  "key_candidate tag = present (js_or (name_attr tag) (property_attr tag))"
  by (simp add: key_candidate_def present_def js_or_def truthy_def split: option.splits)

lemma meta_step_contribution:
  "meta_step metadata tag =
     (case contribution tag of None \<Rightarrow> metadata | Some (d, c) \<Rightarrow> set_prop d c metadata)"
  by (simp add: meta_step_def contribution_def key_candidate_eq present_def destination_eq
        split: option.splits)

lemma map_of_meta_step_other:
  "\<forall>c'. contribution tag \<noteq> Some (d, c') \<Longrightarrow> map_of (meta_step m tag) d = map_of m d"
  by (auto simp add: meta_step_contribution map_of_set_prop split: option.splits)

lemma map_of_foldl_other:
  "\<forall>t\<in>set tags. \<forall>c'. contribution t \<noteq> Some (d, c') \<Longrightarrow>
     map_of (foldl meta_step m tags) d = map_of m d"
proof (induction tags arbitrary: m)
  case Nil
  show ?case by simp
next
  case (Cons tag tags)
  from Cons.prems have "map_of (foldl meta_step (meta_step m tag) tags) d = map_of (meta_step m tag) d"
    by (intro Cons.IH) simp
  also from Cons.prems have "\<dots> = map_of m d"
    by (intro map_of_meta_step_other) simp
  finally show ?case by simp
qed

text \<open>
  C4. The step of the loop over the \<open>meta\<close> elements stores the content of an element
  under the destination of its key candidate, and leaves the metadata as it is when the
  element has no key candidate, no content or no destination. The destination is
  \<open>description\<close> when the key candidate contains \<open>description\<close>, else \<open>author\<close> when it
  contains \<open>author\<close>, else \<open>keywords\<close> when it contains \<open>keywords\<close>, else the key
  candidate itself when it contains \<open>og:\<close>, else none. After the loop a destination
  key holds the content of the last element in document order that has this destination.
\<close>

theorem meta_classification_last_wins:
  "meta_step metadata tag =
     (case contribution tag of None \<Rightarrow> metadata | Some (d, c) \<Rightarrow> set_prop d c metadata) \<and>
   destination key =
     (if js_includes key ''description'' then Some ''description''
      else if js_includes key ''author'' then Some ''author''
      else if js_includes key ''keywords'' then Some ''keywords''
      else if js_includes key ''og:'' then Some key
      else None) \<and>
   (contribution tag = Some (dest, c) \<and>
    (\<forall>t\<in>set later. \<forall>c'. contribution t \<noteq> Some (dest, c')) \<longrightarrow>
      map_of (foldl meta_step metadata (earlier @ tag # later)) dest = Some c)"
proof (intro conjI impI)
  show "meta_step metadata tag =
     (case contribution tag of None \<Rightarrow> metadata | Some (d, c) \<Rightarrow> set_prop d c metadata)"
    by (rule meta_step_contribution)
  show "destination key =
     (if js_includes key ''description'' then Some ''description''
      else if js_includes key ''author'' then Some ''author''
      else if js_includes key ''keywords'' then Some ''keywords''
      else if js_includes key ''og:'' then Some key
      else None)"
    by (rule destination_eq)
  assume a: "contribution tag = Some (dest, c) \<and>
    (\<forall>t\<in>set later. \<forall>c'. contribution t \<noteq> Some (dest, c'))"
  let ?m = "foldl meta_step metadata earlier"
  have "map_of (foldl meta_step metadata (earlier @ tag # later)) dest =
      map_of (foldl meta_step (meta_step ?m tag) later) dest"
    by simp
  also from a have "\<dots> = map_of (meta_step ?m tag) dest"
    by (intro map_of_foldl_other) simp
  also from a have "\<dots> = Some c"
    by (simp add: meta_step_contribution map_of_set_prop)
  finally show "map_of (foldl meta_step metadata (earlier @ tag # later)) dest = Some c" .
qed

lemma example_tags:
  "foldl meta_step [] [og_first, og_description, og_second, viewport] =
     [(''og:title'', ''Second''), (''description'', ''About'')]"
  by code_simp

lemma example_contribution: "contribution og_second = Some (''og:title'', ''Second'')"
  by code_simp

lemma example_later: "\<forall>t\<in>set [viewport]. \<forall>c'. contribution t \<noteq> Some (''og:title'', c')"
proof -
  have "contribution viewport = None" by code_simp
  then show ?thesis by simp
qed

theorem meta_classification_last_wins_witness:
  "contribution og_second = Some (''og:title'', ''Second'') \<and>
   contribution viewport = None \<and>
   meta_step [] og_second = [(''og:title'', ''Second'')] \<and>
   destination ''og:description'' = Some ''description'' \<and>
   map_of (foldl meta_step [] ([og_first, og_description] @ og_second # [viewport])) ''og:title'' =
     Some ''Second'' \<and>
   foldl meta_step [] [og_first, og_description, og_second, viewport] =
     [(''og:title'', ''Second''), (''description'', ''About'')]"
proof -
  note c4 = meta_classification_last_wins [of "[]" og_second "''og:description''" "''og:title''" "''Second''" "[viewport]"
      "[og_first, og_description]"]
  have none: "contribution viewport = None" by code_simp
  have dest: "destination ''og:description'' = Some ''description''" by code_simp
  from c4 have "meta_step [] og_second = [(''og:title'', ''Second'')]"
    by (simp add: example_contribution)
  moreover from c4 example_contribution example_later
  have "map_of (foldl meta_step [] ([og_first, og_description] @ og_second # [viewport])) ''og:title'' =
     Some ''Second''"
    by blast
  ultimately show ?thesis
    using example_contribution none dest example_tags by blast
qed

section \<open>An empty title\<close>

text \<open>
  C5. A document whose \<open>title\<close> element holds a single space: with metadata requested,
  the title is trimmed to the empty string and stored, so the metadata has the entry
  \<open>title\<close> with an empty value and the front matter has the line \<open>title: \<close>.
\<close>

theorem empty_title_is_stored:
  "jsdom example_env page_untitled = Inr \<lparr>title_text = Some '' '', meta_tags = []\<rparr> \<and>
   harvest example_env [url_untitled] url_untitled page_untitled [] =
     Inr [(''title'', []), (''url'', ''https://example.com/untitled''),
          (''fetchedAt'', ''2024-01-01T00:00:00.000Z'')] \<and>
   fst (fetchSingleUrl example_env [] url_untitled True False 30000) =
     \<lparr>success = True,
      content = Some ''---\<newline>title: \<newline>url: https://example.com/untitled\<newline>fetchedAt: 2024-01-01T00:00:00.000Z\<newline>---\<newline>\<newline>Hello'',
      error = None\<rparr>"
  by code_simp

end
